theory Spec2Isabelle
  imports Main "HOL-Library.Sublist"
begin

section \<open>JavaScript values\<close>

text \<open>
  The values that reach the program as parsed JSON, or that the canvas library hands to
  it. Numbers are restricted to integers: the program itself only produces and inspects
  integers (array lengths, indices, the constant 5). A string is its list of characters
  (for ASCII text, the code units JavaScript counts). An object is its list of own
  properties, one binding per key. \<open>JUndefined\<close> is also what reading an absent
  property gives.
\<close>

datatype jsval =
    JUndefined
  | JNull
  | JBool bool
  | JNum int
  | JStr string
  | JArr "jsval list"
  | JObj "(string \<times> jsval) list"

text \<open>
  The exceptions the program can meet; the message text is the engine's. A
  \<open>SyntaxError\<close> is thrown for text that is not JSON, a \<open>TypeError\<close> for a property read
  on null or undefined, and \<open>NetworkError\<close> stands for the error with which a failed
  \<^verbatim>\<open>fetch\<close>, or a failed read of a response body, rejects.
\<close>

datatype js_error = SyntaxError | TypeError | NetworkError

text \<open>\<^verbatim>\<open>typeof v\<close>\<close>

fun js_typeof :: "jsval \<Rightarrow> string" where
  "js_typeof JUndefined = ''undefined''"
| "js_typeof JNull = ''object''"
| "js_typeof (JBool b) = ''boolean''"
| "js_typeof (JNum n) = ''number''"
| "js_typeof (JStr s) = ''string''"
| "js_typeof (JArr xs) = ''object''"
| "js_typeof (JObj kvs) = ''object''"

text \<open>Truthiness, as \<^verbatim>\<open>!v\<close> and \<^verbatim>\<open>v || w\<close> test it.\<close>

fun js_truthy :: "jsval \<Rightarrow> bool" where
  "js_truthy JUndefined = False"
| "js_truthy JNull = False"
| "js_truthy (JBool b) = b"
| "js_truthy (JNum n) = (n \<noteq> 0)"
| "js_truthy (JStr s) = (s \<noteq> [])"
| "js_truthy (JArr xs) = True"
| "js_truthy (JObj kvs) = True"

text \<open>
  \<^verbatim>\<open>v.name\<close> for a property name that no prototype of a JSON value defines (the program
  reads \<^verbatim>\<open>description\<close> and \<^verbatim>\<open>blocks\<close> this way): an object gives its own property or
  undefined, every other value except null and undefined gives undefined, and reading a
  property of null or undefined throws a TypeError. Destructuring
  \<^verbatim>\<open>const { name } = v\<close> behaves the same.
\<close>

fun js_get :: "jsval \<Rightarrow> string \<Rightarrow> js_error + jsval" where
  "js_get JUndefined k = Inl TypeError"
| "js_get JNull k = Inl TypeError"
| "js_get (JObj kvs) k = Inr (case map_of kvs k of None \<Rightarrow> JUndefined | Some v \<Rightarrow> v)"
| "js_get v k = Inr JUndefined"

text \<open>
  \<^verbatim>\<open>v.length\<close>: the number of elements of an array, the number of code units of a
  string, the own property \<^verbatim>\<open>length\<close> of an object, undefined on numbers and booleans.
\<close>

fun js_length :: "jsval \<Rightarrow> js_error + jsval" where
  "js_length JUndefined = Inl TypeError"
| "js_length JNull = Inl TypeError"
| "js_length (JArr xs) = Inr (JNum (int (length xs)))"
| "js_length (JStr s) = Inr (JNum (int (length s)))"
| "js_length (JObj kvs) = Inr (case map_of kvs ''length'' of None \<Rightarrow> JUndefined | Some v \<Rightarrow> v)"
| "js_length v = Inr JUndefined"

text \<open>
  Reading a property of an object literal by a computed key, \<^verbatim>\<open>table[key]\<close>. An object
  literal inherits from \<^verbatim>\<open>Object.prototype\<close>, so a key that is not an own property
  but names a member of \<^verbatim>\<open>Object.prototype\<close> yields that member (a function, or for
  \<^verbatim>\<open>__proto__\<close> the prototype object itself: always a truthy value); any other key
  yields undefined.
\<close>

datatype 'a property = Own 'a | Inherited string | Absent

definition object_prototype_names :: "string list" where
  "object_prototype_names =
     [''constructor'', ''hasOwnProperty'', ''isPrototypeOf'', ''propertyIsEnumerable'',
      ''toLocaleString'', ''toString'', ''valueOf'', ''__proto__'',
      ''__defineGetter__'', ''__defineSetter__'', ''__lookupGetter__'', ''__lookupSetter__'']"

definition get_property :: "(string \<times> 'a) list \<Rightarrow> string \<Rightarrow> 'a property" where
  "get_property table k =
     (case map_of table k of
        Some v \<Rightarrow> Own v
      | None \<Rightarrow> if k \<in> set object_prototype_names then Inherited k else Absent)"

text \<open>Decimal rendering of an array index, as a template literal interpolates it.\<close>

fun string_of_nat :: "nat \<Rightarrow> string" where
  "string_of_nat n =
     (if n < 10 then [''0123456789'' ! n]
      else string_of_nat (n div 10) @ [''0123456789'' ! (n mod 10)])"

declare string_of_nat.simps [simp del]

section \<open>The diagram and its presentation (diagramUtils)\<close>

text \<open>
  The canonical diagram. \<open>None\<close> is an absent (undefined) annotation; a label is any
  value, since the canvas may hold labels that are not strings.
\<close>

record block =
  b_id :: string
  b_type :: string
  b_title :: string
  b_components :: "string list"
  b_annotation :: "string option"

record connection =
  c_source :: string
  c_target :: string
  c_label :: jsval

record diagram =
  blocks :: "block list"
  connections :: "connection list"

text \<open>
  The value stored as a node's position: a coordinate, or the member of
  \<^verbatim>\<open>Object.prototype\<close> that the lookup in the position table found.
\<close>

datatype position = Coord int int | ProtoMember string

record node_data =
  d_type :: string
  d_title :: string
  d_components :: "string list"
  d_annotation :: "string option"

record node =
  n_id :: string
  n_type :: string
  n_position :: position
  n_data :: node_data
  n_draggable :: bool

datatype MarkerType = Arrow | ArrowClosed

record edge_style =
  stroke :: string
  strokeWidth :: int

record marker =
  m_type :: MarkerType
  m_color :: string

record edge =
  e_id :: string
  e_source :: string
  e_target :: string
  e_label :: jsval
  e_type :: string
  e_animated :: bool
  e_style :: edge_style
  e_markerEnd :: marker

definition blockPositions :: "(string \<times> int \<times> int) list" where
  "blockPositions =
     [(''power'', (50, 200)),
      (''inputs'', (350, 50)),
      (''processing'', (650, 200)),
      (''outputs'', (950, 50)),
      (''peripherals'', (650, 400))]"

text \<open>\<^verbatim>\<open>blockPositions[block.type] || { x: 400, y: 200 }\<close>\<close>

definition block_position :: "string \<Rightarrow> position" where
  "block_position t =
     (case get_property blockPositions t of
        Own (x, y) \<Rightarrow> Coord x y
      | Inherited k \<Rightarrow> ProtoMember k
      | Absent \<Rightarrow> Coord 400 200)"

definition diagramToNodes :: "diagram \<Rightarrow> node list" where
  "diagramToNodes d =
     map (\<lambda>b. \<lparr> n_id = b_id b,
                n_type = ''block'',
                n_position = block_position (b_type b),
                n_data = \<lparr> d_type = b_type b,
                           d_title = b_title b,
                           d_components = b_components b,
                           d_annotation = b_annotation b \<rparr>,
                n_draggable = True \<rparr>)
         (blocks d)"

text \<open>The edge built for the connection at position \<open>index\<close> of the list.\<close>

definition edge_of_connection :: "nat \<Rightarrow> connection \<Rightarrow> edge" where
  "edge_of_connection index conn =
     \<lparr> e_id = ''edge-'' @ c_source conn @ ''-'' @ c_target conn @ ''-''
                @ string_of_nat index,
       e_source = c_source conn,
       e_target = c_target conn,
       e_label = c_label conn,
       e_type = ''smoothstep'',
       e_animated = True,
       e_style = \<lparr> stroke = ''hsl(199 89% 48%)'', strokeWidth = 2 \<rparr>,
       e_markerEnd = \<lparr> m_type = ArrowClosed, m_color = ''hsl(199 89% 48%)'' \<rparr> \<rparr>"

definition connectionsToEdges :: "connection list \<Rightarrow> edge list" where
  "connectionsToEdges conns =
     map (\<lambda>(index, conn). edge_of_connection index conn) (enumerate 0 conns)"

definition nodesToDiagram :: "node list \<Rightarrow> edge list \<Rightarrow> diagram" where
  "nodesToDiagram nodes edges =
     \<lparr> blocks =
         map (\<lambda>node. \<lparr> b_id = n_id node,
                       b_type = d_type (n_data node),
                       b_title = d_title (n_data node),
                       b_components = d_components (n_data node),
                       b_annotation = d_annotation (n_data node) \<rparr>)
             nodes,
       connections =
         map (\<lambda>edge. \<lparr> c_source = e_source edge,
                       c_target = e_target edge,
                       c_label = (if js_typeof (e_label edge) = ''string''
                                  then e_label edge else JUndefined) \<rparr>)
             edges \<rparr>"

definition generateDefaultDiagram :: diagram where
  "generateDefaultDiagram =
     \<lparr> blocks =
         [\<lparr> b_id = ''power-1'', b_type = ''power'', b_title = ''Power Supply'',
            b_components = [''Battery'', ''Voltage Regulator''], b_annotation = None \<rparr>,
          \<lparr> b_id = ''inputs-1'', b_type = ''inputs'', b_title = ''Inputs Block'',
            b_components = [''Sensor Module'', ''Button Interface''], b_annotation = None \<rparr>,
          \<lparr> b_id = ''processing-1'', b_type = ''processing'',
            b_title = ''Control and Processing'',
            b_components = [''Microcontroller'', ''Memory''], b_annotation = None \<rparr>,
          \<lparr> b_id = ''outputs-1'', b_type = ''outputs'', b_title = ''Outputs Block'',
            b_components = [''LED Indicator'', ''Display''], b_annotation = None \<rparr>,
          \<lparr> b_id = ''peripherals-1'', b_type = ''peripherals'',
            b_title = ''Other Peripherals'',
            b_components = [''Debug Interface'', ''External Connector''],
            b_annotation = None \<rparr>],
       connections =
         [\<lparr> c_source = ''power-1'', c_target = ''processing-1'', c_label = JStr ''VCC'' \<rparr>,
          \<lparr> c_source = ''inputs-1'', c_target = ''processing-1'', c_label = JStr ''Data'' \<rparr>,
          \<lparr> c_source = ''processing-1'', c_target = ''outputs-1'',
            c_label = JStr ''Control'' \<rparr>,
          \<lparr> c_source = ''processing-1'', c_target = ''peripherals-1'',
            c_label = JStr ''I/O'' \<rparr>] \<rparr>"

text \<open>The five categories of the tool schema's enum.\<close>

definition block_types :: "string list" where
  "block_types = [''power'', ''inputs'', ''processing'', ''outputs'', ''peripherals'']"

text \<open>
  The shape the tool schema of the generation endpoint declares for a diagram, as far as
  the types above leave it open: exactly five blocks, each category one of the five of
  the enum, and a label that is absent or a string.
\<close>

definition satisfies_schema :: "diagram \<Rightarrow> bool" where
  "satisfies_schema d =
     (length (blocks d) = 5
      \<and> list_all (\<lambda>b. b_type b \<in> set block_types) (blocks d)
      \<and> list_all (\<lambda>c. c_label c = JUndefined \<or> js_typeof (c_label c) = ''string'')
                  (connections d))"

section \<open>The canvas editing controller (DiagramCanvas)\<close>

text \<open>
  The canvas keeps the working node and edge lists in its own state and reports every
  new list to its parent through \<^verbatim>\<open>onNodesChange\<close> and \<^verbatim>\<open>onEdgesChange\<close>; the parent's
  copy is the other half of the state.
\<close>

record working_set =
  nodes :: "node list"
  edges :: "edge list"
  parent_nodes :: "node list"
  parent_edges :: "edge list"

text \<open>
  The object \<^verbatim>\<open>handleSave\<close>, the only caller of \<^verbatim>\<open>handleNodeUpdate\<close>, passes as
  \<^verbatim>\<open>newData\<close>: the keys title, components and annotation, the last possibly undefined.
\<close>

record new_data =
  nd_title :: string
  nd_components :: "string list"
  nd_annotation :: "string option"

text \<open>\<^verbatim>\<open>{ ...node.data, ...newData }\<close>: the three keys of \<^verbatim>\<open>newData\<close> replace those of the data.\<close>

definition spread_data :: "node_data \<Rightarrow> new_data \<Rightarrow> node_data" where
  "spread_data dat newData =
     dat \<lparr> d_title := nd_title newData,
           d_components := nd_components newData,
           d_annotation := nd_annotation newData \<rparr>"

definition handleNodeUpdate :: "string \<Rightarrow> new_data \<Rightarrow> working_set \<Rightarrow> working_set" where
  "handleNodeUpdate nodeId newData ws =
     (let updatedNodes =
            map (\<lambda>node. if n_id node = nodeId
                         then node \<lparr> n_data := spread_data (n_data node) newData \<rparr>
                         else node)
                (nodes ws)
      in ws \<lparr> nodes := updatedNodes, parent_nodes := updatedNodes \<rparr>)"

definition handleNodeDelete :: "string \<Rightarrow> working_set \<Rightarrow> working_set" where
  "handleNodeDelete nodeId ws =
     (let updatedNodes = filter (\<lambda>node. n_id node \<noteq> nodeId) (nodes ws);
          updatedEdges = filter (\<lambda>edge. e_source edge \<noteq> nodeId \<and> e_target edge \<noteq> nodeId)
                                (edges ws)
      in ws \<lparr> nodes := updatedNodes, parent_nodes := updatedNodes,
              edges := updatedEdges, parent_edges := updatedEdges \<rparr>)"

text \<open>
  A connect gesture. The canvas library passes the connection (source, target and the
  two handle ids, each possibly null) and the handler spreads the default edge options
  over it. What the edge list becomes is decided by the library's \<^verbatim>\<open>addEdge\<close>, which
  is not part of the repository: it is a parameter here.
\<close>

record pending_edge =
  p_source :: "string option"
  p_target :: "string option"
  p_sourceHandle :: "string option"
  p_targetHandle :: "string option"
  p_type :: string
  p_animated :: bool
  p_style :: edge_style
  p_markerEnd :: marker

definition onConnect ::
  "(pending_edge \<Rightarrow> edge list \<Rightarrow> edge list) \<Rightarrow>
   string option \<times> string option \<times> string option \<times> string option \<Rightarrow>
   working_set \<Rightarrow> working_set" where
  "onConnect addEdge params ws =
     (case params of (src, tgt, srcHandle, tgtHandle) \<Rightarrow>
        let newEdges =
              addEdge \<lparr> p_source = src, p_target = tgt,
                        p_sourceHandle = srcHandle, p_targetHandle = tgtHandle,
                        p_type = ''smoothstep'', p_animated = True,
                        p_style = \<lparr> stroke = ''hsl(199 89% 48%)'', strokeWidth = 2 \<rparr>,
                        p_markerEnd = \<lparr> m_type = ArrowClosed,
                                        m_color = ''hsl(199 89% 48%)'' \<rparr> \<rparr>
                      (edges ws)
        in ws \<lparr> edges := newEdges, parent_edges := newEdges \<rparr>)"

text \<open>
  Loading a diagram (a generation result or the default template): the parent converts
  it and the canvas starts from the converted lists.
\<close>

definition load_diagram :: "diagram \<Rightarrow> working_set" where
  "load_diagram d =
     \<lparr> nodes = diagramToNodes d,
       edges = connectionsToEdges (connections d),
       parent_nodes = diagramToNodes d,
       parent_edges = connectionsToEdges (connections d) \<rparr>"

section \<open>The block component (BlockNode)\<close>

record block_style =
  className :: string
  icon :: string

text \<open>The icons are single emoji, written as their UTF-8 bytes.\<close>

definition blockStyles :: "(string \<times> block_style) list" where
  "blockStyles =
     [(''power'', \<lparr> className = ''block-power'',
                    icon = [CHR 0xE2, CHR 0x9A, CHR 0xA1] \<rparr>),
      (''inputs'', \<lparr> className = ''block-inputs'',
                     icon = [CHR 0xF0, CHR 0x9F, CHR 0x93, CHR 0xA5] \<rparr>),
      (''processing'', \<lparr> className = ''block-processing'',
                         icon = [CHR 0xF0, CHR 0x9F, CHR 0x94, CHR 0xA7] \<rparr>),
      (''outputs'', \<lparr> className = ''block-outputs'',
                      icon = [CHR 0xF0, CHR 0x9F, CHR 0x93, CHR 0xA4] \<rparr>),
      (''peripherals'', \<lparr> className = ''block-peripherals'',
                          icon = [CHR 0xF0, CHR 0x9F, CHR 0x94, CHR 0x8C] \<rparr>)]"

text \<open>
  What rendering reads from the looked-up style: \<^verbatim>\<open>style.className\<close> and
  \<^verbatim>\<open>style.icon\<close>. With \<^verbatim>\<open>style\<close> undefined the first read throws a TypeError and
  nothing is rendered; a member of \<^verbatim>\<open>Object.prototype\<close> has neither property, so both
  reads give undefined.
\<close>

record rendered =
  r_className :: "string option"
  r_icon :: "string option"

definition BlockNode_render :: "node_data \<Rightarrow> js_error + rendered" where
  "BlockNode_render dat =
     (case get_property blockStyles (d_type dat) of
        Own style \<Rightarrow> Inr \<lparr> r_className = Some (className style), r_icon = Some (icon style) \<rparr>
      | Inherited k \<Rightarrow> Inr \<lparr> r_className = None, r_icon = None \<rparr>
      | Absent \<Rightarrow> Inl TypeError)"

text \<open>The component's local state (its \<^verbatim>\<open>useState\<close> cells).\<close>

record block_ui =
  isEditing :: bool
  editTitle :: string
  editComponents :: "string list"
  editAnnotation :: string
  showAnnotation :: bool
  newComponent :: string

text \<open>\<^verbatim>\<open>data.annotation || ""\<close>\<close>

definition annotation_or_empty :: "node_data \<Rightarrow> string" where
  "annotation_or_empty dat = (case d_annotation dat of None \<Rightarrow> [] | Some a \<Rightarrow> a)"

definition initial_ui :: "node_data \<Rightarrow> block_ui" where
  "initial_ui dat =
     \<lparr> isEditing = False,
       editTitle = d_title dat,
       editComponents = d_components dat,
       editAnnotation = annotation_or_empty dat,
       showAnnotation = (annotation_or_empty dat \<noteq> []),
       newComponent = [] \<rparr>"

text \<open>The object \<^verbatim>\<open>handleSave\<close> passes to \<^verbatim>\<open>onUpdate\<close>; the annotation is
  \<^verbatim>\<open>editAnnotation || undefined\<close>.\<close>

definition saved_data :: "block_ui \<Rightarrow> new_data" where
  "saved_data ui =
     \<lparr> nd_title = editTitle ui,
       nd_components = editComponents ui,
       nd_annotation = (if editAnnotation ui = [] then None else Some (editAnnotation ui)) \<rparr>"

text \<open>
  \<^verbatim>\<open>handleSave\<close> calls \<^verbatim>\<open>onUpdate\<close>, when the prop is given, on the state \<open>s\<close> that
  the callback owns, and leaves edit mode.
\<close>

definition handleSave ::
  "string \<Rightarrow> (string \<Rightarrow> new_data \<Rightarrow> 's \<Rightarrow> 's) option \<Rightarrow> 's \<times> block_ui \<Rightarrow> 's \<times> block_ui" where
  "handleSave ident onUpdate st =
     (case st of (s, ui) \<Rightarrow>
        ((case onUpdate of None \<Rightarrow> s | Some f \<Rightarrow> f ident (saved_data ui) s),
         ui \<lparr> isEditing := False \<rparr>))"

definition handleCancel :: "node_data \<Rightarrow> block_ui \<Rightarrow> block_ui" where
  "handleCancel dat ui =
     ui \<lparr> editTitle := d_title dat,
          editComponents := d_components dat,
          editAnnotation := annotation_or_empty dat,
          isEditing := False \<rparr>"

text \<open>\<^verbatim>\<open>String.prototype.trim\<close> is a parameter of the model.\<close>

definition handleAddComponent :: "(string \<Rightarrow> string) \<Rightarrow> block_ui \<Rightarrow> block_ui" where
  "handleAddComponent trim ui =
     (if trim (newComponent ui) \<noteq> []
      then ui \<lparr> editComponents := editComponents ui @ [trim (newComponent ui)],
                newComponent := [] \<rparr>
      else ui)"

definition handleRemoveComponent :: "nat \<Rightarrow> block_ui \<Rightarrow> block_ui" where
  "handleRemoveComponent index ui =
     ui \<lparr> editComponents :=
            map snd (filter (\<lambda>(i, c). i \<noteq> index) (enumerate 0 (editComponents ui))) \<rparr>"

text \<open>
  The events of the component rendered for the node at position \<open>i\<close> of the working
  set, wired as DiagramCanvas wires them: the props \<^verbatim>\<open>id\<close> and \<^verbatim>\<open>data\<close> are those of
  that node and \<^verbatim>\<open>onUpdate\<close> is \<^verbatim>\<open>handleNodeUpdate\<close>. When there is no such node there
  is no component and nothing happens.
\<close>

datatype ui_event =
    StartEdit
  | SetEditTitle string
  | SetNewComponent string
  | AddComponent
  | RemoveComponent nat
  | SetEditAnnotation string
  | ToggleAnnotation
  | Save
  | Cancel

definition block_event ::
  "(string \<Rightarrow> string) \<Rightarrow> nat \<Rightarrow> ui_event \<Rightarrow> working_set \<times> block_ui \<Rightarrow> working_set \<times> block_ui"
  where
  "block_event trim i ev st =
     (case st of (ws, ui) \<Rightarrow>
        if length (nodes ws) \<le> i then (ws, ui)
        else
          (case ev of
             StartEdit \<Rightarrow> (ws, ui \<lparr> isEditing := True \<rparr>)
           | SetEditTitle t \<Rightarrow> (ws, ui \<lparr> editTitle := t \<rparr>)
           | SetNewComponent c \<Rightarrow> (ws, ui \<lparr> newComponent := c \<rparr>)
           | AddComponent \<Rightarrow> (ws, handleAddComponent trim ui)
           | RemoveComponent index \<Rightarrow> (ws, handleRemoveComponent index ui)
           | SetEditAnnotation a \<Rightarrow> (ws, ui \<lparr> editAnnotation := a \<rparr>)
           | ToggleAnnotation \<Rightarrow> (ws, ui \<lparr> showAnnotation := \<not> showAnnotation ui \<rparr>)
           | Save \<Rightarrow> handleSave (n_id (nodes ws ! i)) (Some handleNodeUpdate) (ws, ui)
           | Cancel \<Rightarrow> (ws, handleCancel (n_data (nodes ws ! i)) ui)))"

definition block_events ::
  "(string \<Rightarrow> string) \<Rightarrow> nat \<Rightarrow> ui_event list \<Rightarrow> working_set \<times> block_ui \<Rightarrow> working_set \<times> block_ui"
  where
  "block_events trim i evs st = fold (block_event trim i) evs st"

section \<open>The generation endpoint\<close>

text \<open>
  A request is its method and the outcome of \<^verbatim>\<open>req.json()\<close>: the parsed body, or the
  error thrown when the body is not JSON.
\<close>

record request =
  req_method :: string
  req_json :: "js_error + jsval"

datatype response_body =
    NoBody
  | ErrorBody string
  | ThrownBody js_error
  | DiagramBody jsval

text \<open>
  \<open>ErrorBody m\<close> is the body \<^verbatim>\<open>{ error: m }\<close>, \<open>ThrownBody e\<close> the body
  \<^verbatim>\<open>{ error: e.message }\<close> of a caught exception, \<open>DiagramBody d\<close> the body
  \<^verbatim>\<open>{ diagram: d }\<close>.
\<close>

record response =
  r_status :: nat
  r_body :: response_body

definition error_response :: "nat \<Rightarrow> string \<Rightarrow> response" where
  "error_response st msg = \<lparr> r_status = st, r_body = ErrorBody msg \<rparr>"

text \<open>The \<^verbatim>\<open>catch\<close> block: every exception of the model is an \<^verbatim>\<open>Error\<close> instance.\<close>

definition caught :: "js_error \<Rightarrow> response" where
  "caught e = \<lparr> r_status = 500, r_body = ThrownBody e \<rparr>"

text \<open>
  What the handler extracts from a gateway response with a success status:
  \<open>ReplyThrows e\<close> when \<^verbatim>\<open>response.json()\<close>, \<^verbatim>\<open>data.choices\<close> or
  \<^verbatim>\<open>toolCall.function.name\<close> throws; \<open>NoToolCall\<close> when
  \<^verbatim>\<open>data.choices?.[0]?.message?.tool_calls?.[0]\<close> is falsy; otherwise the tool call's
  function name and the outcome of \<^verbatim>\<open>JSON.parse\<close> on its arguments.
\<close>

datatype model_reply =
    ReplyThrows js_error
  | NoToolCall
  | ToolCall jsval "js_error + jsval"

text \<open>
  A gateway response: its status, the outcome of \<^verbatim>\<open>response.text()\<close> (the text, or the
  error with which the read rejects), which the handler awaits for a failure status
  only, and what it extracts for a success status.
\<close>

record gateway_response =
  g_status :: nat
  g_text :: "js_error + string"
  g_reply :: model_reply

text \<open>\<^verbatim>\<open>response.ok\<close>: the status is in the range 200 to 299.\<close>

definition response_ok :: "nat \<Rightarrow> bool" where
  "response_ok st = (200 \<le> st \<and> st \<le> 299)"

text \<open>\<^verbatim>\<open>!diagramData.blocks || diagramData.blocks.length !== 5\<close>\<close>

definition block_count_invalid :: "jsval \<Rightarrow> js_error + bool" where
  "block_count_invalid diagramData =
     (case js_get diagramData ''blocks'' of
        Inl e \<Rightarrow> Inl e
      | Inr blks \<Rightarrow>
          if \<not> js_truthy blks then Inr True
          else (case js_length blks of
                  Inl e \<Rightarrow> Inl e
                | Inr n \<Rightarrow> Inr (n \<noteq> JNum 5)))"

definition validate_diagram :: "jsval \<Rightarrow> response" where
  "validate_diagram diagramData =
     (case block_count_invalid diagramData of
        Inl e \<Rightarrow> caught e
      | Inr True \<Rightarrow> error_response 500 ''AI did not generate exactly 5 blocks''
      | Inr False \<Rightarrow> \<lparr> r_status = 200, r_body = DiagramBody diagramData \<rparr>)"

definition on_gateway_response :: "gateway_response \<Rightarrow> response" where
  "on_gateway_response g =
     (if \<not> response_ok (g_status g) then
        (case g_text g of
           Inl e \<Rightarrow> caught e
         | Inr errorText \<Rightarrow>
             if g_status g = 429
             then error_response 429 ''Rate limit exceeded. Please try again later.''
             else if g_status g = 402
             then error_response 402 ''Usage limit reached. Please add credits.''
             else error_response 500 ''Failed to generate diagram'')
      else
        (case g_reply g of
           ReplyThrows e \<Rightarrow> caught e
         | NoToolCall \<Rightarrow> error_response 500 ''Invalid response from AI''
         | ToolCall name args \<Rightarrow>
             if name \<noteq> JStr ''generate_block_diagram''
             then error_response 500 ''Invalid response from AI''
             else (case args of
                     Inl e \<Rightarrow> caught e
                   | Inr diagramData \<Rightarrow> validate_diagram diagramData)))"

text \<open>
  The handler. \<open>key\<close> is \<^verbatim>\<open>Deno.env.get("LOVABLE_API_KEY")\<close>; \<open>gateway\<close> is what the
  call to the model gateway gives if it is made (the thrown error when \<^verbatim>\<open>fetch\<close>
  rejects). The result is the response and whether a request was sent to the model.
\<close>

record outcome =
  reply :: response
  model_called :: bool

definition serve :: "request \<Rightarrow> string option \<Rightarrow> js_error + gateway_response \<Rightarrow> outcome" where
  "serve req key gateway =
     (if req_method req = ''OPTIONS''
      then \<lparr> reply = \<lparr> r_status = 200, r_body = NoBody \<rparr>, model_called = False \<rparr>
      else
        (case req_json req of
           Inl e \<Rightarrow> \<lparr> reply = caught e, model_called = False \<rparr>
         | Inr parsed \<Rightarrow>
             (case js_get parsed ''description'' of
                Inl e \<Rightarrow> \<lparr> reply = caught e, model_called = False \<rparr>
              | Inr description \<Rightarrow>
                  if \<not> js_truthy description \<or> js_typeof description \<noteq> ''string''
                  then \<lparr> reply = error_response 400 ''Description is required'',
                         model_called = False \<rparr>
                  else if key = None \<or> key = Some []
                  then \<lparr> reply = error_response 500 ''AI service not configured'',
                         model_called = False \<rparr>
                  else
                    (case gateway of
                       Inl e \<Rightarrow> \<lparr> reply = caught e, model_called = True \<rparr>
                     | Inr g \<Rightarrow> \<lparr> reply = on_gateway_response g, model_called = True \<rparr>))))"

section \<open>The default template\<close>

text \<open>
  C9. The default template is a constant: five blocks, one per category in the order of
  the enum, and the four connections power to processing, inputs to processing,
  processing to outputs and processing to peripherals, every endpoint of which is the id
  of one of the five blocks.
\<close>

theorem generateDefaultDiagram_shape:
  "length (blocks generateDefaultDiagram) = 5
   \<and> map b_type (blocks generateDefaultDiagram) = block_types
   \<and> map b_id (blocks generateDefaultDiagram)
       = [''power-1'', ''inputs-1'', ''processing-1'', ''outputs-1'', ''peripherals-1'']
   \<and> map (\<lambda>c. (c_source c, c_target c)) (connections generateDefaultDiagram)
       = [(''power-1'', ''processing-1''), (''inputs-1'', ''processing-1''),
          (''processing-1'', ''outputs-1''), (''processing-1'', ''peripherals-1'')]
   \<and> set (map c_source (connections generateDefaultDiagram))
       \<subseteq> set (map b_id (blocks generateDefaultDiagram))
   \<and> set (map c_target (connections generateDefaultDiagram))
       \<subseteq> set (map b_id (blocks generateDefaultDiagram))"
  by (simp add: generateDefaultDiagram_def block_types_def)

section \<open>The graph adapter\<close>

lemma block_eta:
  "\<lparr> b_id = b_id x, b_type = b_type x, b_title = b_title x,
     b_components = b_components x, b_annotation = b_annotation x \<rparr> = x"
  by (cases x) simp

lemma blocks_round_trip:
  "blocks (nodesToDiagram (diagramToNodes d) es) = blocks d"
  by (simp add: nodesToDiagram_def diagramToNodes_def comp_def block_eta)

lemma map_edge_of_connection:
  "map (\<lambda>e. f (e_source e) (e_target e) (e_label e))
       (map (\<lambda>(i, c). edge_of_connection i c) (enumerate n cs))
   = map (\<lambda>c. f (c_source c) (c_target c) (c_label c)) cs"
  by (induction cs arbitrary: n) (simp_all add: edge_of_connection_def)

lemma connections_of_edges:
  "connections (nodesToDiagram ns (connectionsToEdges cs))
   = map (\<lambda>c. \<lparr> c_source = c_source c, c_target = c_target c,
                 c_label = (if js_typeof (c_label c) = ''string''
                            then c_label c else JUndefined) \<rparr>) cs"
  unfolding connectionsToEdges_def nodesToDiagram_def
  using map_edge_of_connection
    [of "\<lambda>s t l. \<lparr> c_source = s, c_target = t,
                    c_label = (if js_typeof l = ''string'' then l else JUndefined) \<rparr>" 0 cs]
  by simp

lemma connections_round_trip:
  assumes "list_all (\<lambda>c. c_label c = JUndefined \<or> js_typeof (c_label c) = ''string'') cs"
  shows "connections (nodesToDiagram ns (connectionsToEdges cs)) = cs"
proof -
  have "\<lparr> c_source = c_source c, c_target = c_target c,
          c_label = (if js_typeof (c_label c) = ''string'' then c_label c else JUndefined) \<rparr>
        = c" if "c \<in> set cs" for c
  proof -
    from assms that have "c_label c = JUndefined \<or> js_typeof (c_label c) = ''string''"
      by (simp add: list_all_iff)
    then show ?thesis
      by (cases c) auto
  qed
  then show ?thesis
    by (simp add: connections_of_edges map_idI)
qed

lemma default_satisfies_schema: "satisfies_schema generateDefaultDiagram"
  by (simp add: satisfies_schema_def generateDefaultDiagram_def block_types_def)

text \<open>
  C1. Round trip. A diagram that satisfies the schema, converted to nodes and edges with
  \<open>diagramToNodes\<close> and \<open>connectionsToEdges\<close> and back with \<open>nodesToDiagram\<close>, is the
  diagram again. The result has the canonical fields only (position, style and the
  generated edge id are no fields of a diagram), and from any edge list the label of a
  connection is the edge's label when that is a string and undefined otherwise. Records
  have no field order, and an absent annotation or label is not told apart from one that
  is present with the value undefined.
\<close>

theorem diagram_round_trip:
  "(satisfies_schema d \<longrightarrow>
      nodesToDiagram (diagramToNodes d) (connectionsToEdges (connections d)) = d)
   \<and> map c_label (connections (nodesToDiagram ns es))
       = map (\<lambda>e. if js_typeof (e_label e) = ''string'' then e_label e else JUndefined) es"
proof (intro conjI impI)
  assume s: "satisfies_schema d"
  have b: "blocks (nodesToDiagram (diagramToNodes d) (connectionsToEdges (connections d)))
           = blocks d"
    by (rule blocks_round_trip)
  have c: "connections (nodesToDiagram (diagramToNodes d) (connectionsToEdges (connections d)))
           = connections d"
    using s by (simp add: satisfies_schema_def connections_round_trip)
  show "nodesToDiagram (diagramToNodes d) (connectionsToEdges (connections d)) = d"
    using b c by (simp add: diagram.equality)
next
  show "map c_label (connections (nodesToDiagram ns es))
        = map (\<lambda>e. if js_typeof (e_label e) = ''string'' then e_label e else JUndefined) es"
    by (simp add: nodesToDiagram_def comp_def)
qed

theorem diagram_round_trip_witness:
  "satisfies_schema generateDefaultDiagram
   \<and> nodesToDiagram (diagramToNodes generateDefaultDiagram)
        (connectionsToEdges (connections generateDefaultDiagram)) = generateDefaultDiagram"
  using diagram_round_trip [of generateDefaultDiagram] default_satisfies_schema by simp

section \<open>Deleting a node\<close>

text \<open>
  C2. Cascading delete. After \<open>handleNodeDelete n\<close> no node has id \<open>n\<close> and no edge has
  \<open>n\<close> as source or target; every node with another id and every edge with neither
  endpoint \<open>n\<close> is kept, in the order it had, and nothing is added. The parent's copy is
  the new working set.
\<close>

theorem handleNodeDelete_cascade:
  "nodes (handleNodeDelete n ws) = filter (\<lambda>x. n_id x \<noteq> n) (nodes ws)
   \<and> edges (handleNodeDelete n ws)
       = filter (\<lambda>e. e_source e \<noteq> n \<and> e_target e \<noteq> n) (edges ws)
   \<and> n \<notin> n_id ` set (nodes (handleNodeDelete n ws))
   \<and> (\<forall>e \<in> set (edges (handleNodeDelete n ws)). e_source e \<noteq> n \<and> e_target e \<noteq> n)
   \<and> (\<forall>x \<in> set (nodes ws). n_id x \<noteq> n \<longrightarrow> x \<in> set (nodes (handleNodeDelete n ws)))
   \<and> (\<forall>e \<in> set (edges ws). e_source e \<noteq> n \<and> e_target e \<noteq> n
          \<longrightarrow> e \<in> set (edges (handleNodeDelete n ws)))
   \<and> subseq (nodes (handleNodeDelete n ws)) (nodes ws)
   \<and> subseq (edges (handleNodeDelete n ws)) (edges ws)
   \<and> parent_nodes (handleNodeDelete n ws) = nodes (handleNodeDelete n ws)
   \<and> parent_edges (handleNodeDelete n ws) = edges (handleNodeDelete n ws)"
  by (auto simp: handleNodeDelete_def Let_def)

theorem handleNodeDelete_cascade_witness:
  "map n_id (nodes (handleNodeDelete ''power-1'' (load_diagram generateDefaultDiagram)))
     = [''inputs-1'', ''processing-1'', ''outputs-1'', ''peripherals-1'']
   \<and> map (\<lambda>e. (e_source e, e_target e))
          (edges (handleNodeDelete ''power-1'' (load_diagram generateDefaultDiagram)))
     = [(''inputs-1'', ''processing-1''), (''processing-1'', ''outputs-1''),
        (''processing-1'', ''peripherals-1'')]
   \<and> ''power-1''
       \<notin> n_id ` set (nodes (handleNodeDelete ''power-1'' (load_diagram generateDefaultDiagram)))"
proof -
  note h = handleNodeDelete_cascade [of "''power-1''" "load_diagram generateDefaultDiagram"]
  have n: "map n_id (nodes (handleNodeDelete ''power-1'' (load_diagram generateDefaultDiagram)))
           = [''inputs-1'', ''processing-1'', ''outputs-1'', ''peripherals-1'']"
    using h
    by (simp add: load_diagram_def generateDefaultDiagram_def diagramToNodes_def)
  have e: "map (\<lambda>e. (e_source e, e_target e))
             (edges (handleNodeDelete ''power-1'' (load_diagram generateDefaultDiagram)))
           = [(''inputs-1'', ''processing-1''), (''processing-1'', ''outputs-1''),
              (''processing-1'', ''peripherals-1'')]"
    using h
    by (simp add: load_diagram_def generateDefaultDiagram_def connectionsToEdges_def
          edge_of_connection_def)
  from h have "''power-1''
      \<notin> n_id ` set (nodes (handleNodeDelete ''power-1'' (load_diagram generateDefaultDiagram)))"
    by blast
  with n e show ?thesis by blast
qed

section \<open>The layout mapper\<close>

lemma block_position_categories:
  "block_position ''power'' = Coord 50 200"
  "block_position ''inputs'' = Coord 350 50"
  "block_position ''processing'' = Coord 650 200"
  "block_position ''outputs'' = Coord 950 50"
  "block_position ''peripherals'' = Coord 650 400"
  by (simp_all add: block_position_def get_property_def blockPositions_def)

lemma block_position_fallback:
  "t \<notin> set block_types \<Longrightarrow> t \<notin> set object_prototype_names \<Longrightarrow> block_position t = Coord 400 200"
  by (simp add: block_position_def get_property_def blockPositions_def block_types_def)

lemma diagramToNodes_position:
  "map n_position (diagramToNodes d) = map (\<lambda>b. block_position (b_type b)) (blocks d)"
  by (simp add: diagramToNodes_def comp_def)

text \<open>
  C7. The layout mapper. The position of a node is \<open>block_position\<close> of the block's
  category and of nothing else (lemma \<open>diagramToNodes_position\<close>), the five categories have
  their five coordinates, and a category that is neither one of the five nor the name of
  a member of \<^verbatim>\<open>Object.prototype\<close> gets the fallback coordinate (400, 200). For the
  category \<^verbatim>\<open>toString\<close>, which is not one of the five, the lookup in the position table
  finds the inherited member; it is truthy, so the fallback after \<^verbatim>\<open>||\<close> is not taken
  and the node's position is that member instead of the fallback coordinate.
\<close>

theorem block_position_inherited_key:
  "''toString'' \<notin> set block_types
   \<and> block_position ''toString'' = ProtoMember ''toString''
   \<and> block_position ''toString'' \<noteq> Coord 400 200
   \<and> map n_position
        (diagramToNodes \<lparr> blocks = [\<lparr> b_id = ''b1'', b_type = ''toString'', b_title = ''T'',
                                     b_components = [], b_annotation = None \<rparr>],
                          connections = [] \<rparr>)
      = [ProtoMember ''toString'']"
  by (simp add: block_position_def get_property_def blockPositions_def block_types_def
        object_prototype_names_def diagramToNodes_def)

section \<open>Editing a block\<close>

lemma block_event_no_save:
  "ev \<noteq> Save \<Longrightarrow> fst (block_event trim i ev (ws, ui)) = ws"
  by (cases ev) (simp_all add: block_event_def)

lemma block_events_no_save:
  "Save \<notin> set evs \<Longrightarrow> fst (block_events trim i evs (ws, ui)) = ws"
proof (induction evs arbitrary: ui)
  case Nil
  then show ?case by (simp add: block_events_def)
next
  case (Cons ev evs)
  then have ne: "ev \<noteq> Save" and rest: "Save \<notin> set evs" by auto
  obtain ui' where step: "block_event trim i ev (ws, ui) = (ws, ui')"
    using block_event_no_save [OF ne, of trim i ws ui]
    by (cases "block_event trim i ev (ws, ui)") simp
  have "block_events trim i (ev # evs) (ws, ui) = block_events trim i evs (ws, ui')"
    by (simp add: block_events_def step)
  with Cons.IH [OF rest] show ?case by simp
qed

lemma save_event:
  "i < length (nodes ws) \<Longrightarrow>
   block_event trim i Save (ws, ui)
   = (handleNodeUpdate (n_id (nodes ws ! i)) (saved_data ui) ws, ui \<lparr> isEditing := False \<rparr>)"
  by (simp add: block_event_def handleSave_def)

lemma saved_data_fields:
  "nd_title (saved_data ui) = editTitle ui"
  "nd_components (saved_data ui) = editComponents ui"
  "nd_annotation (saved_data ui)
   = (if editAnnotation ui = [] then None else Some (editAnnotation ui))"
  by (simp_all add: saved_data_def)

lemma handleNodeUpdate_frame:
  "length (nodes (handleNodeUpdate ident nd ws)) = length (nodes ws)
   \<and> edges (handleNodeUpdate ident nd ws) = edges ws
   \<and> parent_edges (handleNodeUpdate ident nd ws) = parent_edges ws
   \<and> parent_nodes (handleNodeUpdate ident nd ws) = nodes (handleNodeUpdate ident nd ws)"
  by (simp add: handleNodeUpdate_def Let_def)

lemma handleNodeUpdate_nth:
  assumes "j < length (nodes ws)"
  shows "nodes (handleNodeUpdate ident nd ws) ! j
         = (if n_id (nodes ws ! j) = ident
            then (nodes ws ! j) \<lparr> n_data := spread_data (n_data (nodes ws ! j)) nd \<rparr>
            else nodes ws ! j)"
  using assms by (simp add: handleNodeUpdate_def Let_def)

lemma handleNodeUpdate_node:
  assumes "j < length (nodes ws)"
  shows "n_id (nodes (handleNodeUpdate ident nd ws) ! j) = n_id (nodes ws ! j)
   \<and> n_type (nodes (handleNodeUpdate ident nd ws) ! j) = n_type (nodes ws ! j)
   \<and> n_position (nodes (handleNodeUpdate ident nd ws) ! j) = n_position (nodes ws ! j)
   \<and> n_draggable (nodes (handleNodeUpdate ident nd ws) ! j) = n_draggable (nodes ws ! j)
   \<and> d_type (n_data (nodes (handleNodeUpdate ident nd ws) ! j)) = d_type (n_data (nodes ws ! j))
   \<and> (if n_id (nodes ws ! j) = ident
       then d_title (n_data (nodes (handleNodeUpdate ident nd ws) ! j)) = nd_title nd
          \<and> d_components (n_data (nodes (handleNodeUpdate ident nd ws) ! j)) = nd_components nd
          \<and> d_annotation (n_data (nodes (handleNodeUpdate ident nd ws) ! j)) = nd_annotation nd
       else nodes (handleNodeUpdate ident nd ws) ! j = nodes ws ! j)"
  by (simp add: handleNodeUpdate_nth [OF assms] spread_data_def)

lemma save_frame:
  assumes i: "i < length (nodes ws)"
  shows "(let ident = n_id (nodes ws ! i);
           ws' = fst (block_event trim i Save (ws, ui))
       in length (nodes ws') = length (nodes ws)
        \<and> (\<forall>j < length (nodes ws).
              n_id (nodes ws' ! j) = n_id (nodes ws ! j)
            \<and> n_type (nodes ws' ! j) = n_type (nodes ws ! j)
            \<and> n_position (nodes ws' ! j) = n_position (nodes ws ! j)
            \<and> n_draggable (nodes ws' ! j) = n_draggable (nodes ws ! j)
            \<and> d_type (n_data (nodes ws' ! j)) = d_type (n_data (nodes ws ! j))
            \<and> (if n_id (nodes ws ! j) = ident
                then d_title (n_data (nodes ws' ! j)) = editTitle ui
                   \<and> d_components (n_data (nodes ws' ! j)) = editComponents ui
                   \<and> d_annotation (n_data (nodes ws' ! j))
                       = (if editAnnotation ui = [] then None else Some (editAnnotation ui))
                else nodes ws' ! j = nodes ws ! j))
        \<and> edges ws' = edges ws
        \<and> parent_edges ws' = parent_edges ws
        \<and> parent_nodes ws' = nodes ws')"
proof -
  have ev: "fst (block_event trim i Save (ws, ui))
            = handleNodeUpdate (n_id (nodes ws ! i)) (saved_data ui) ws"
    by (simp add: save_event [OF i])
  show ?thesis
    unfolding Let_def ev
    using handleNodeUpdate_frame [of "n_id (nodes ws ! i)" "saved_data ui" ws]
      handleNodeUpdate_node [of _ ws "n_id (nodes ws ! i)" "saved_data ui"]
    by (simp add: saved_data_fields)
qed

lemma cancel_event:
  "i < length (nodes ws) \<Longrightarrow>
   block_event trim i Cancel (ws, ui)
   = (ws, ui \<lparr> editTitle := d_title (n_data (nodes ws ! i)),
               editComponents := d_components (n_data (nodes ws ! i)),
               editAnnotation := annotation_or_empty (n_data (nodes ws ! i)),
               isEditing := False \<rparr>)"
  by (simp add: block_event_def handleCancel_def)

lemma save_others_unchanged:
  assumes i: "i < length (nodes ws)" and d: "distinct (map n_id (nodes ws))"
    and j: "j < length (nodes ws)" and ne: "j \<noteq> i"
  shows "nodes (fst (block_event trim i Save (ws, ui))) ! j = nodes ws ! j"
proof -
  have "map n_id (nodes ws) ! j \<noteq> map n_id (nodes ws) ! i"
    using d i j ne by (simp add: nth_eq_iff_index_eq del: nth_map)
  then have "n_id (nodes ws ! j) \<noteq> n_id (nodes ws ! i)"
    using i j by simp
  then show ?thesis
    using j by (simp add: save_event [OF i] handleNodeUpdate_nth)
qed

text \<open>
  C8. Editing a block. Confirming the edit of the node at position \<open>i\<close> keeps the number
  of nodes and, of every node, the id, the type, the position, the draggable flag and the
  category in its data; a node with the id of the edited one gets the edited title,
  component list and annotation (an empty annotation text is stored as undefined), every
  node with another id is unchanged, the edges are unchanged and the parent's copy of the
  nodes is the new list. When the ids of the nodes are distinct, every node but the
  edited one is unchanged. No sequence of events of the component without a save changes
  the working set, and cancelling resets the edit fields to the node's data and leaves
  edit mode.
\<close>

theorem edit_block_frame:
  "(i < length (nodes ws) \<longrightarrow>
      (let ident = n_id (nodes ws ! i);
           ws' = fst (block_event trim i Save (ws, ui))
       in length (nodes ws') = length (nodes ws)
        \<and> (\<forall>j < length (nodes ws).
              n_id (nodes ws' ! j) = n_id (nodes ws ! j)
            \<and> n_type (nodes ws' ! j) = n_type (nodes ws ! j)
            \<and> n_position (nodes ws' ! j) = n_position (nodes ws ! j)
            \<and> n_draggable (nodes ws' ! j) = n_draggable (nodes ws ! j)
            \<and> d_type (n_data (nodes ws' ! j)) = d_type (n_data (nodes ws ! j))
            \<and> (if n_id (nodes ws ! j) = ident
                then d_title (n_data (nodes ws' ! j)) = editTitle ui
                   \<and> d_components (n_data (nodes ws' ! j)) = editComponents ui
                   \<and> d_annotation (n_data (nodes ws' ! j))
                       = (if editAnnotation ui = [] then None else Some (editAnnotation ui))
                else nodes ws' ! j = nodes ws ! j))
        \<and> edges ws' = edges ws
        \<and> parent_edges ws' = parent_edges ws
        \<and> parent_nodes ws' = nodes ws'))
   \<and> (i < length (nodes ws) \<and> distinct (map n_id (nodes ws)) \<longrightarrow>
        (\<forall>j < length (nodes ws). j \<noteq> i \<longrightarrow>
           nodes (fst (block_event trim i Save (ws, ui))) ! j = nodes ws ! j))
   \<and> (Save \<notin> set evs \<longrightarrow> fst (block_events trim i evs (ws, ui)) = ws)
   \<and> (i < length (nodes ws) \<longrightarrow>
        block_event trim i Cancel (ws, ui)
        = (ws, ui \<lparr> editTitle := d_title (n_data (nodes ws ! i)),
                    editComponents := d_components (n_data (nodes ws ! i)),
                    editAnnotation := annotation_or_empty (n_data (nodes ws ! i)),
                    isEditing := False \<rparr>))"
  using save_frame [of i ws trim ui] block_events_no_save [of evs trim i ws ui]
    cancel_event [of i ws trim ui] save_others_unchanged [of i ws _ trim ui]
  by blast

lemma default_length: "length (nodes (load_diagram generateDefaultDiagram)) = 5"
  by (simp add: load_diagram_def generateDefaultDiagram_def diagramToNodes_def)

theorem edit_block_frame_witness:
  "fst (block_events (\<lambda>s. s) 0
          [StartEdit, SetEditTitle ''PSU'', SetNewComponent ''Fuse'', AddComponent, Cancel]
          (load_diagram generateDefaultDiagram,
           initial_ui (n_data (nodes (load_diagram generateDefaultDiagram) ! 0))))
     = load_diagram generateDefaultDiagram
   \<and> d_title (n_data (nodes (fst (block_event (\<lambda>s. s) 0 Save
          (load_diagram generateDefaultDiagram,
           \<lparr> isEditing = True, editTitle = ''PSU'', editComponents = [''Battery'', ''Fuse''],
             editAnnotation = ''5V rail'', showAnnotation = False, newComponent = [] \<rparr>))) ! 0))
       = ''PSU''
   \<and> nodes (fst (block_event (\<lambda>s. s) 0 Save
          (load_diagram generateDefaultDiagram,
           \<lparr> isEditing = True, editTitle = ''PSU'', editComponents = [''Battery'', ''Fuse''],
             editAnnotation = ''5V rail'', showAnnotation = False, newComponent = [] \<rparr>))) ! 1
       = nodes (load_diagram generateDefaultDiagram) ! 1"
proof -
  let ?ws = "load_diagram generateDefaultDiagram"
  let ?ui = "\<lparr> isEditing = True, editTitle = ''PSU'', editComponents = [''Battery'', ''Fuse''],
             editAnnotation = ''5V rail'', showAnnotation = False, newComponent = [] \<rparr>"
  let ?evs = "[StartEdit, SetEditTitle ''PSU'', SetNewComponent ''Fuse'', AddComponent, Cancel]"
  have ids: "n_id (nodes ?ws ! 0) = ''power-1''" "n_id (nodes ?ws ! 1) = ''inputs-1''"
    by (simp_all add: load_diagram_def generateDefaultDiagram_def diagramToNodes_def)
  have a: "fst (block_events (\<lambda>s. s) 0 ?evs (?ws, initial_ui (n_data (nodes ?ws ! 0)))) = ?ws"
    using edit_block_frame [of 0 ?ws "\<lambda>s. s" "initial_ui (n_data (nodes ?ws ! 0))" ?evs]
    by simp
  let ?ws' = "fst (block_event (\<lambda>s. s) 0 Save (?ws, ?ui))"
  have b: "\<forall>j<5. (if n_id (nodes ?ws ! j) = ''power-1''
                then d_title (n_data (nodes ?ws' ! j)) = ''PSU''
                else nodes ?ws' ! j = nodes ?ws ! j)"
    using edit_block_frame [of 0 ?ws "\<lambda>s. s" ?ui "[]"]
    by (simp add: default_length Let_def ids)
  from b have "d_title (n_data (nodes ?ws' ! 0)) = ''PSU''"
    using ids by force
  moreover from b have "nodes ?ws' ! 1 = nodes ?ws ! 1"
    using ids by force
  ultimately show ?thesis using a by blast
qed

section \<open>The endpoint: validation of the model's result\<close>

lemma js_length_truthy: "js_truthy b \<Longrightarrow> \<exists>n. js_length b = Inr n"
  by (cases b) simp_all

lemma validate_diagram_blocks:
  assumes "js_get d ''blocks'' = Inr b"
  shows "validate_diagram d =
           (if js_truthy b \<and> js_length b = Inr (JNum 5)
            then \<lparr> r_status = 200, r_body = DiagramBody d \<rparr>
            else error_response 500 ''AI did not generate exactly 5 blocks'')"
proof (cases "js_truthy b")
  case False
  with assms show ?thesis
    by (simp add: validate_diagram_def block_count_invalid_def)
next
  case True
  then obtain n where "js_length b = Inr n"
    using js_length_truthy by blast
  with True assms show ?thesis
    by (simp add: validate_diagram_def block_count_invalid_def)
qed

lemma validate_diagram_array:
  "map_of kvs ''blocks'' = Some (JArr xs) \<Longrightarrow>
   validate_diagram (JObj kvs) =
     (if length xs = 5 then \<lparr> r_status = 200, r_body = DiagramBody (JObj kvs) \<rparr>
      else error_response 500 ''AI did not generate exactly 5 blocks'')"
  by (simp add: validate_diagram_blocks [of "JObj kvs" "JArr xs"])

lemma validate_diagram_absent:
  "map_of kvs ''blocks'' = None \<Longrightarrow>
   validate_diagram (JObj kvs) = error_response 500 ''AI did not generate exactly 5 blocks''"
  by (simp add: validate_diagram_blocks [of "JObj kvs" JUndefined])

lemma on_gateway_tool_call:
  "response_ok (g_status g) \<Longrightarrow> g_reply g = ToolCall (JStr ''generate_block_diagram'') (Inr d)
   \<Longrightarrow> on_gateway_response g = validate_diagram d"
  by (simp add: on_gateway_response_def)

text \<open>
  C3. The validator. As amended: the endpoint validates the parsed arguments of the tool
  call, a value \<open>d\<close>, by checking only that \<^verbatim>\<open>d.blocks\<close> is truthy and that its
  \<^verbatim>\<open>length\<close> is exactly 5; for an array of blocks, that it has exactly five entries.
  Neither the fields of a block nor \<^verbatim>\<open>connections\<close> are inspected. When the check fails
  the response has status 500 and the body
  \<^verbatim>\<open>{ error: "AI did not generate exactly 5 blocks" }\<close>, with no diagram in it; when it
  passes, the response has status 200 and carries \<open>d\<close> unchanged.
\<close>

theorem validation_checks_block_count:
  "(response_ok (g_status g) \<and> g_reply g = ToolCall (JStr ''generate_block_diagram'') (Inr d)
      \<longrightarrow> on_gateway_response g = validate_diagram d)
   \<and> (js_get d ''blocks'' = Inr b \<longrightarrow>
        validate_diagram d =
          (if js_truthy b \<and> js_length b = Inr (JNum 5)
           then \<lparr> r_status = 200, r_body = DiagramBody d \<rparr>
           else error_response 500 ''AI did not generate exactly 5 blocks''))
   \<and> (map_of kvs ''blocks'' = Some (JArr xs) \<longrightarrow>
        validate_diagram (JObj kvs) =
          (if length xs = 5 then \<lparr> r_status = 200, r_body = DiagramBody (JObj kvs) \<rparr>
           else error_response 500 ''AI did not generate exactly 5 blocks''))
   \<and> (map_of kvs ''blocks'' = None \<longrightarrow>
        validate_diagram (JObj kvs)
        = error_response 500 ''AI did not generate exactly 5 blocks'')"
  using on_gateway_tool_call [of g d] validate_diagram_blocks [of d b]
    validate_diagram_array [of kvs xs] validate_diagram_absent [of kvs]
  by blast

theorem validation_checks_block_count_counterexample:
  "serve \<lparr> req_method = ''POST'',
           req_json = Inr (JObj [(''description'', JStr ''Smart doorbell'')]) \<rparr>
         (Some ''key'')
         (Inr \<lparr> g_status = 200, g_text = Inr [],
                g_reply = ToolCall (JStr ''generate_block_diagram'')
                            (Inr (JObj [(''blocks'',
                                         JArr [JObj [], JObj [], JObj [], JObj [], JObj []])])) \<rparr>)
   = \<lparr> reply = \<lparr> r_status = 200,
                  r_body = DiagramBody
                             (JObj [(''blocks'',
                                     JArr [JObj [], JObj [], JObj [], JObj [], JObj []])]) \<rparr>,
       model_called = True \<rparr>"
  by (simp add: serve_def on_gateway_response_def response_ok_def validate_diagram_def
        block_count_invalid_def)

theorem validation_checks_block_count_witness:
  "validate_diagram (JObj [(''blocks'', JArr [JObj [], JObj [], JObj [], JObj []]),
                           (''connections'', JArr [])])
     = error_response 500 ''AI did not generate exactly 5 blocks''
   \<and> validate_diagram (JObj [(''connections'', JArr [])])
     = error_response 500 ''AI did not generate exactly 5 blocks''
   \<and> on_gateway_response
        \<lparr> g_status = 200, g_text = Inr [],
          g_reply = ToolCall (JStr ''generate_block_diagram'')
                      (Inr (JObj [(''blocks'',
                                   JArr (replicate 5 (JObj [(''type'', JStr ''bogus'')])))])) \<rparr>
     = \<lparr> r_status = 200,
         r_body = DiagramBody
                    (JObj [(''blocks'',
                            JArr (replicate 5 (JObj [(''type'', JStr ''bogus'')])))]) \<rparr>"
proof -
  have 1: "validate_diagram (JObj [(''blocks'', JArr [JObj [], JObj [], JObj [], JObj []]),
                           (''connections'', JArr [])])
     = error_response 500 ''AI did not generate exactly 5 blocks''"
    using validation_checks_block_count
      [of _ _ _ "[(''blocks'', JArr [JObj [], JObj [], JObj [], JObj []]),
                  (''connections'', JArr [])]" "[JObj [], JObj [], JObj [], JObj []]"]
    by simp
  have 2: "validate_diagram (JObj [(''connections'', JArr [])])
     = error_response 500 ''AI did not generate exactly 5 blocks''"
    using validation_checks_block_count [of _ _ _ "[(''connections'', JArr [])]"]
    by simp
  let ?d = "JObj [(''blocks'', JArr (replicate 5 (JObj [(''type'', JStr ''bogus'')])))]"
  let ?g = "\<lparr> g_status = 200, g_text = Inr [],
              g_reply = ToolCall (JStr ''generate_block_diagram'') (Inr ?d) \<rparr>"
  have 3: "on_gateway_response ?g = \<lparr> r_status = 200, r_body = DiagramBody ?d \<rparr>"
    using validation_checks_block_count
      [of ?g ?d "JArr (replicate 5 (JObj [(''type'', JStr ''bogus'')]))"]
    by (simp add: response_ok_def)
  from 1 2 3 show ?thesis by blast
qed

section \<open>The endpoint: errors of the model gateway\<close>

lemma not_ok_statuses: "\<not> response_ok 429" "\<not> response_ok 402" "\<not> response_ok 503"
  by (simp_all add: response_ok_def)

lemma rate_limit_message:
  "sublist ''Rate limit'' ''Rate limit exceeded. Please try again later.''"
  by (rule prefix_imp_sublist) simp

lemma on_gateway_failure:
  "\<not> response_ok (g_status g) \<Longrightarrow> g_text g = Inr t \<Longrightarrow>
   on_gateway_response g =
     (if g_status g = 429
      then error_response 429 ''Rate limit exceeded. Please try again later.''
      else if g_status g = 402
      then error_response 402 ''Usage limit reached. Please add credits.''
      else error_response 500 ''Failed to generate diagram'')"
  by (simp add: on_gateway_response_def)

lemma on_gateway_unreadable:
  "\<not> response_ok (g_status g) \<Longrightarrow> g_text g = Inl e \<Longrightarrow> on_gateway_response g = caught e"
  by (simp add: on_gateway_response_def)

lemma serve_called:
  "model_called (serve req key (Inr g)) \<Longrightarrow> reply (serve req key (Inr g)) = on_gateway_response g"
  by (auto simp: serve_def split: if_splits sum.splits)

text \<open>
  When the request reached the model gateway, the gateway's response has a failure status
  and its text can be read, the endpoint answers 429 for the status 429, 402 for the
  status 402 and 500 for every other status, each with a fixed message; the message for
  429 contains \<^verbatim>\<open>Rate limit\<close>.
\<close>

lemma upstream_status_mapping:
  "model_called (serve req key (Inr g)) \<and> \<not> response_ok (g_status g) \<and> g_text g = Inr t \<longrightarrow>
     reply (serve req key (Inr g)) =
       (if g_status g = 429
        then error_response 429 ''Rate limit exceeded. Please try again later.''
        else if g_status g = 402
        then error_response 402 ''Usage limit reached. Please add credits.''
        else error_response 500 ''Failed to generate diagram'')
     \<and> r_status (reply (serve req key (Inr g)))
         = (if g_status g = 429 then 429 else if g_status g = 402 then 402 else 500)
     \<and> (g_status g = 429 \<longrightarrow>
          (\<exists>m. r_body (reply (serve req key (Inr g))) = ErrorBody m
               \<and> sublist ''Rate limit'' m))"
  using rate_limit_message
  by (auto simp: serve_called on_gateway_failure error_response_def)

text \<open>
  When the read of the text rejects, the exception reaches the \<^verbatim>\<open>catch\<close> block and the
  answer is 500 with the exception's message, whatever the status of the gateway.
\<close>

lemma upstream_unreadable_text:
  "model_called (serve req key (Inr g)) \<and> \<not> response_ok (g_status g) \<and> g_text g = Inl e \<longrightarrow>
     reply (serve req key (Inr g)) = \<lparr> r_status = 500, r_body = ThrownBody e \<rparr>"
  by (auto simp: serve_called on_gateway_unreadable caught_def)

text \<open>
  C5. Upstream errors. The handler awaits the text of a failure response, which it only
  logs, before it tests the status. For a gateway response with the status 429 (or 402)
  whose text cannot be read, the endpoint answers 500 with the exception's message and
  not 429 (or 402) with the fixed message; with the text readable the same response is
  answered 429 with the message that contains \<^verbatim>\<open>Rate limit\<close>.
\<close>

theorem upstream_unreadable_body:
  "serve \<lparr> req_method = ''POST'',
           req_json = Inr (JObj [(''description'', JStr ''Smart doorbell'')]) \<rparr>
         (Some ''key'')
         (Inr \<lparr> g_status = 429, g_text = Inl NetworkError, g_reply = NoToolCall \<rparr>)
     = \<lparr> reply = \<lparr> r_status = 500, r_body = ThrownBody NetworkError \<rparr>,
         model_called = True \<rparr>
   \<and> serve \<lparr> req_method = ''POST'',
             req_json = Inr (JObj [(''description'', JStr ''Smart doorbell'')]) \<rparr>
           (Some ''key'')
           (Inr \<lparr> g_status = 402, g_text = Inl NetworkError, g_reply = NoToolCall \<rparr>)
     = \<lparr> reply = \<lparr> r_status = 500, r_body = ThrownBody NetworkError \<rparr>,
         model_called = True \<rparr>
   \<and> serve \<lparr> req_method = ''POST'',
             req_json = Inr (JObj [(''description'', JStr ''Smart doorbell'')]) \<rparr>
           (Some ''key'')
           (Inr \<lparr> g_status = 429, g_text = Inr ''Too Many Requests'', g_reply = NoToolCall \<rparr>)
     = \<lparr> reply = \<lparr> r_status = 429,
                    r_body = ErrorBody ''Rate limit exceeded. Please try again later.'' \<rparr>,
         model_called = True \<rparr>"
  by (simp add: serve_def on_gateway_response_def response_ok_def caught_def
        error_response_def)

theorem upstream_unreadable_body_witness:
  "r_status (reply (serve
       \<lparr> req_method = ''POST'',
         req_json = Inr (JObj [(''description'', JStr ''Smart doorbell'')]) \<rparr>
       (Some ''key'')
       (Inr \<lparr> g_status = 429, g_text = Inl NetworkError, g_reply = NoToolCall \<rparr>))) = 500
   \<and> r_status (reply (serve
       \<lparr> req_method = ''POST'',
         req_json = Inr (JObj [(''description'', JStr ''Smart doorbell'')]) \<rparr>
       (Some ''key'')
       (Inr \<lparr> g_status = 429, g_text = Inr ''Too Many Requests'', g_reply = NoToolCall \<rparr>)))
       = 429"
  using upstream_unreadable_body by simp

section \<open>The endpoint: the description check\<close>

lemma js_get_total:
  "parsed \<noteq> JNull \<Longrightarrow> parsed \<noteq> JUndefined \<Longrightarrow> \<exists>v. js_get parsed k = Inr v"
  by (cases parsed) simp_all

text \<open>
  When the description check is reached, that is when the method is not
  \<^verbatim>\<open>OPTIONS\<close> and the body parses to a value other than null, a description that is the
  empty string, missing (undefined) or not a string is answered 400 with the body
  \<^verbatim>\<open>{ error: "Description is required" }\<close>, and no request is sent to the model.
\<close>

lemma description_check_reached:
  "req_method req \<noteq> ''OPTIONS''
   \<and> req_json req = Inr parsed
   \<and> js_get parsed ''description'' = Inr description
   \<and> (description = JStr [] \<or> js_typeof description \<noteq> ''string'')
   \<longrightarrow> serve req key gateway
        = \<lparr> reply = error_response 400 ''Description is required'', model_called = False \<rparr>"
  by (auto simp: serve_def)

text \<open>
  C6. The description check. A \<^verbatim>\<open>POST\<close> whose body is the JSON value null has no
  description. The handler destructures the parsed body before it checks the
  description, the destructuring of null throws a TypeError, and the \<^verbatim>\<open>catch\<close> block
  answers 500 with the exception's message instead of 400 with
  \<^verbatim>\<open>{ error: "Description is required" }\<close>. Every other body without a description is
  answered 400: an empty array, a number, a boolean, an empty object. In each case no
  request is sent to the model.
\<close>

theorem description_check_null_body:
  "serve \<lparr> req_method = ''POST'', req_json = Inr JNull \<rparr> key gateway
     = \<lparr> reply = \<lparr> r_status = 500, r_body = ThrownBody TypeError \<rparr>, model_called = False \<rparr>
   \<and> serve \<lparr> req_method = ''POST'', req_json = Inr (JArr []) \<rparr> key gateway
     = \<lparr> reply = \<lparr> r_status = 400, r_body = ErrorBody ''Description is required'' \<rparr>,
         model_called = False \<rparr>
   \<and> serve \<lparr> req_method = ''POST'', req_json = Inr (JNum 5) \<rparr> key gateway
     = \<lparr> reply = \<lparr> r_status = 400, r_body = ErrorBody ''Description is required'' \<rparr>,
         model_called = False \<rparr>
   \<and> serve \<lparr> req_method = ''POST'', req_json = Inr (JBool True) \<rparr> key gateway
     = \<lparr> reply = \<lparr> r_status = 400, r_body = ErrorBody ''Description is required'' \<rparr>,
         model_called = False \<rparr>
   \<and> serve \<lparr> req_method = ''POST'', req_json = Inr (JObj []) \<rparr> key gateway
     = \<lparr> reply = \<lparr> r_status = 400, r_body = ErrorBody ''Description is required'' \<rparr>,
         model_called = False \<rparr>"
  by (simp add: serve_def caught_def error_response_def)

theorem description_check_null_body_witness:
  "r_status (reply (serve \<lparr> req_method = ''POST'', req_json = Inr JNull \<rparr>
                      (Some ''key'') (Inl NetworkError))) = 500
   \<and> r_status (reply (serve \<lparr> req_method = ''POST'', req_json = Inr (JObj []) \<rparr>
                        (Some ''key'') (Inl NetworkError))) = 400"
  using description_check_null_body [of "Some ''key''" "Inl NetworkError"] by simp

section \<open>Rendering a block\<close>

lemma blockStyles_keys: "map fst blockStyles = block_types"
  by (simp add: blockStyles_def block_types_def)

lemma get_property_blockStyles_Own:
  "t \<in> set block_types \<Longrightarrow> \<exists>s. get_property blockStyles t = Own s \<and> (t, s) \<in> set blockStyles"
  by (auto simp: get_property_def blockStyles_def block_types_def)

lemma render_category:
  assumes "d_type dat \<in> set block_types"
  shows "\<exists>s. get_property blockStyles (d_type dat) = Own s
             \<and> BlockNode_render dat
                 = Inr \<lparr> r_className = Some (className s), r_icon = Some (icon s) \<rparr>"
proof -
  from assms obtain s where "get_property blockStyles (d_type dat) = Own s"
    using get_property_blockStyles_Own by blast
  then show ?thesis
    by (simp add: BlockNode_render_def)
qed

lemma render_unknown:
  assumes "d_type dat \<notin> set block_types" and "d_type dat \<notin> set object_prototype_names"
  shows "get_property blockStyles (d_type dat) = Absent \<and> BlockNode_render dat = Inl TypeError"
proof -
  from assms(1) have "map_of blockStyles (d_type dat) = None"
    by (simp add: blockStyles_def block_types_def)
  with assms(2) show ?thesis
    by (simp add: BlockNode_render_def get_property_def)
qed

lemma render_inherited:
  assumes "d_type dat \<in> set object_prototype_names"
  shows "get_property blockStyles (d_type dat) = Inherited (d_type dat)
         \<and> BlockNode_render dat = Inr \<lparr> r_className = None, r_icon = None \<rparr>"
proof -
  from assms have "map_of blockStyles (d_type dat) = None"
    by (auto simp: blockStyles_def object_prototype_names_def)
  with assms show ?thesis
    by (simp add: BlockNode_render_def get_property_def)
qed

lemma bogus_not_a_category: "''bogus'' \<notin> set block_types"
  by (simp add: block_types_def)

lemma validation_passes_bogus:
  "validate_diagram
     (JObj [(''blocks'', JArr (replicate 5 (JObj [(''type'', JStr ''bogus'')])))])
   = \<lparr> r_status = 200,
       r_body = DiagramBody
          (JObj [(''blocks'', JArr (replicate 5 (JObj [(''type'', JStr ''bogus'')])))]) \<rparr>"
  by (simp add: validate_diagram_array
        [of "[(''blocks'', JArr (replicate 5 (JObj [(''type'', JStr ''bogus'')])))]"
            "replicate 5 (JObj [(''type'', JStr ''bogus'')])"])

text \<open>
  C10. The style table. As amended: the style table has own entries for exactly the five
  categories and no fallback. For a node whose category is one of the five the lookup
  finds the entry and rendering reads its class name and icon. For a category that is
  neither one of the five nor the name of a member of \<^verbatim>\<open>Object.prototype\<close> the lookup
  gives undefined and rendering throws a TypeError. For the name of a member of
  \<^verbatim>\<open>Object.prototype\<close> the lookup gives that member and rendering goes on with an
  undefined class name and icon. Endpoint validation lets a category outside the enum
  through: five blocks of the category \<^verbatim>\<open>bogus\<close> pass.
\<close>

theorem blockStyles_lookup:
  "map fst blockStyles = block_types
   \<and> (d_type dat \<in> set block_types \<longrightarrow>
        (\<exists>s. get_property blockStyles (d_type dat) = Own s
             \<and> BlockNode_render dat
                 = Inr \<lparr> r_className = Some (className s), r_icon = Some (icon s) \<rparr>))
   \<and> (d_type dat \<notin> set block_types \<and> d_type dat \<notin> set object_prototype_names \<longrightarrow>
        get_property blockStyles (d_type dat) = Absent \<and> BlockNode_render dat = Inl TypeError)
   \<and> (d_type dat \<in> set object_prototype_names \<longrightarrow>
        get_property blockStyles (d_type dat) = Inherited (d_type dat)
        \<and> BlockNode_render dat = Inr \<lparr> r_className = None, r_icon = None \<rparr>)
   \<and> ''bogus'' \<notin> set block_types
   \<and> validate_diagram
         (JObj [(''blocks'', JArr (replicate 5 (JObj [(''type'', JStr ''bogus'')])))])
       = \<lparr> r_status = 200,
           r_body = DiagramBody
              (JObj [(''blocks'', JArr (replicate 5 (JObj [(''type'', JStr ''bogus'')])))]) \<rparr>"
  using blockStyles_keys render_category [of dat] render_unknown [of dat]
    render_inherited [of dat] bogus_not_a_category validation_passes_bogus
  by blast

theorem blockStyles_lookup_counterexample:
  "''toString'' \<notin> set block_types
   \<and> get_property blockStyles ''toString'' = Inherited ''toString''
   \<and> BlockNode_render \<lparr> d_type = ''toString'', d_title = ''T'', d_components = [],
                         d_annotation = None \<rparr>
       = Inr \<lparr> r_className = None, r_icon = None \<rparr>"
  by (simp add: BlockNode_render_def get_property_def blockStyles_def block_types_def
        object_prototype_names_def)

theorem blockStyles_lookup_witness:
  "BlockNode_render \<lparr> d_type = ''power'', d_title = ''Power Supply'', d_components = [],
                      d_annotation = None \<rparr>
     = Inr \<lparr> r_className = Some ''block-power'', r_icon = Some [CHR 0xE2, CHR 0x9A, CHR 0xA1] \<rparr>
   \<and> BlockNode_render \<lparr> d_type = ''bogus'', d_title = ''T'', d_components = [],
                        d_annotation = None \<rparr> = Inl TypeError
   \<and> BlockNode_render \<lparr> d_type = ''valueOf'', d_title = ''T'', d_components = [],
                        d_annotation = None \<rparr> = Inr \<lparr> r_className = None, r_icon = None \<rparr>"
proof -
  have p: "get_property blockStyles ''power''
           = Own \<lparr> className = ''block-power'', icon = [CHR 0xE2, CHR 0x9A, CHR 0xA1] \<rparr>"
    by (simp add: get_property_def blockStyles_def)
  have 1: "BlockNode_render \<lparr> d_type = ''power'', d_title = ''Power Supply'', d_components = [],
                      d_annotation = None \<rparr>
     = Inr \<lparr> r_className = Some ''block-power'', r_icon = Some [CHR 0xE2, CHR 0x9A, CHR 0xA1] \<rparr>"
    using blockStyles_lookup [of "\<lparr> d_type = ''power'', d_title = ''Power Supply'',
                                   d_components = [], d_annotation = None \<rparr>"] p
    by (auto simp: block_types_def)
  have 2: "BlockNode_render \<lparr> d_type = ''bogus'', d_title = ''T'', d_components = [],
                        d_annotation = None \<rparr> = Inl TypeError"
    using blockStyles_lookup [of "\<lparr> d_type = ''bogus'', d_title = ''T'',
                                   d_components = [], d_annotation = None \<rparr>"]
    by (simp add: block_types_def object_prototype_names_def)
  have 3: "BlockNode_render \<lparr> d_type = ''valueOf'', d_title = ''T'', d_components = [],
                        d_annotation = None \<rparr> = Inr \<lparr> r_className = None, r_icon = None \<rparr>"
    using blockStyles_lookup [of "\<lparr> d_type = ''valueOf'', d_title = ''T'',
                                   d_components = [], d_annotation = None \<rparr>"]
    by (simp add: object_prototype_names_def)
  from 1 2 3 show ?thesis by blast
qed

section \<open>Connecting two blocks\<close>

text \<open>
  After a connect gesture the edge list, and the parent's copy of it, is what the
  library's \<^verbatim>\<open>addEdge\<close> returns for the connection with the default edge options and
  the previous edge list; the nodes are untouched.
\<close>

lemma onConnect_result:
  "edges (onConnect addEdge (src, tgt, sh, th) ws)
     = addEdge \<lparr> p_source = src, p_target = tgt, p_sourceHandle = sh, p_targetHandle = th,
                 p_type = ''smoothstep'', p_animated = True,
                 p_style = \<lparr> stroke = ''hsl(199 89% 48%)'', strokeWidth = 2 \<rparr>,
                 p_markerEnd = \<lparr> m_type = ArrowClosed, m_color = ''hsl(199 89% 48%)'' \<rparr> \<rparr>
               (edges ws)
   \<and> parent_edges (onConnect addEdge (src, tgt, sh, th) ws)
       = edges (onConnect addEdge (src, tgt, sh, th) ws)
   \<and> nodes (onConnect addEdge (src, tgt, sh, th) ws) = nodes ws"
  by (simp add: onConnect_def Let_def)

end
